theory Spec2Isabelle
  imports Main "HOL-Library.Finite_Map" "HOL-Library.Word"
begin

section \<open>Go values shared by the packages\<close>

text \<open>
  A Go \<^verbatim>\<open>string\<close> is a sequence of bytes and is modelled as \<^typ>\<open>string\<close>.
  A Go \<^verbatim>\<open>[]byte\<close> is either the nil slice or a slice with contents; the code tests
  \<^verbatim>\<open>data == nil\<close>, so the difference is kept: \<open>None\<close> is nil, \<open>Some bs\<close> a slice
  holding \<open>bs\<close>.
\<close>

type_synonym byte = "8 word"
type_synonym bytes = "byte list"
type_synonym byte_slice = "bytes option"

text \<open>The conversions \<^verbatim>\<open>[]byte(s)\<close> (never nil) and \<^verbatim>\<open>string(b)\<close> (nil gives the empty string).\<close>

definition bytes_of_string :: "string \<Rightarrow> byte_slice" where
  "bytes_of_string s = Some (map (\<lambda>c. of_char c) s)"

definition string_of_bytes :: "byte_slice \<Rightarrow> string" where
  "string_of_bytes b = (case b of None \<Rightarrow> [] | Some bs \<Rightarrow> map (\<lambda>w. char_of (unat w)) bs)"

text \<open>
  A Go \<^verbatim>\<open>error\<close> is modelled by its message; a run-time panic is a failure of its own.
\<close>

datatype go_error = Err string | Panic string

section \<open>Package time: instants and durations\<close>

text \<open>
  \<^verbatim>\<open>time.Duration\<close> is an \<^verbatim>\<open>int64\<close> count of nanoseconds. A \<^verbatim>\<open>time.Time\<close> obtained from
  \<^verbatim>\<open>time.Now()\<close> carries a monotonic clock reading, and \<^verbatim>\<open>time.Since\<close> and \<^verbatim>\<open>Sub\<close> use only
  that reading; an instant is modelled as this reading in nanoseconds. Every call of
  \<^verbatim>\<open>time.Now()\<close> in the source is an explicit argument of the model.
\<close>

type_synonym Time = int
type_synonym Duration = int

definition wrap64 :: "int \<Rightarrow> int" where
  "wrap64 k = signed_take_bit 63 k"

definition minDuration :: Duration where
  "minDuration = - (2 ^ 63)"

definition maxDuration :: Duration where
  "maxDuration = 2 ^ 63 - 1"

definition Second :: Duration where
  "Second = 1000000000"

text \<open>
  \<^verbatim>\<open>subMono(t, u)\<close> of package time: the difference in \<^verbatim>\<open>int64\<close>, saturated where it
  wrapped around.
\<close>

definition Sub :: "Time \<Rightarrow> Time \<Rightarrow> Duration" where
  "Sub t u =
     (let d = wrap64 (t - u)
      in if d < 0 \<and> t > u then maxDuration
         else if d > 0 \<and> t < u then minDuration
         else d)"

text \<open>\<^verbatim>\<open>time.Since(t)\<close> with the current reading \<open>now\<close>.\<close>

definition Since :: "Time \<Rightarrow> Time \<Rightarrow> Duration" where
  "Since now t = Sub now t"

text \<open>\<^verbatim>\<open>t.Add(d)\<close>.\<close>

definition Add :: "Time \<Rightarrow> Duration \<Rightarrow> Time" where
  "Add t d = t + d"

section \<open>Package server: the blob store\<close>

record Blob =
  Data :: byte_slice
  CreatedAt :: Time
  TTL :: Duration

text \<open>
  The store's map \<^verbatim>\<open>map[string]*Blob\<close> is a finite map. Each method holds the store's lock
  for its whole body, so a method is one atomic step from a store to a result and a
  store.
\<close>

record Store =
  blobs :: "(string, Blob) fmap"

definition NewStore :: Store where
  "NewStore = \<lparr>blobs = fmempty\<rparr>"

definition Put :: "Store \<Rightarrow> Time \<Rightarrow> string \<Rightarrow> byte_slice \<Rightarrow> Duration \<Rightarrow> bool \<times> Store" where
  "Put s now codeID data ttl =
     (case fmlookup (blobs s) codeID of
        Some _ \<Rightarrow> (False, s)
      | None \<Rightarrow>
          (True, s\<lparr>blobs := fmupd codeID \<lparr>Data = data, CreatedAt = now, TTL = ttl\<rparr> (blobs s)\<rparr>))"

definition GetAndDelete :: "Store \<Rightarrow> Time \<Rightarrow> string \<Rightarrow> byte_slice \<times> Store" where
  "GetAndDelete s now codeID =
     (case fmlookup (blobs s) codeID of
        None \<Rightarrow> (None, s)
      | Some blob \<Rightarrow>
          if Since now (CreatedAt blob) > TTL blob
          then (None, s\<lparr>blobs := fmdrop codeID (blobs s)\<rparr>)
          else (Data blob, s\<lparr>blobs := fmdrop codeID (blobs s)\<rparr>))"

text \<open>The test of \<^verbatim>\<open>Cleanup\<close>'s loop body on the entry stored under \<open>cid\<close>.\<close>

definition cleanup_expired :: "Store \<Rightarrow> Time \<Rightarrow> string \<Rightarrow> bool" where
  "cleanup_expired s now cid =
     (case fmlookup (blobs s) cid of
        None \<Rightarrow> False
      | Some blob \<Rightarrow> Sub now (CreatedAt blob) > TTL blob)"

definition Cleanup :: "Store \<Rightarrow> Time \<Rightarrow> int \<times> Store" where
  "Cleanup s now =
     (int (fcard (ffilter (cleanup_expired s now) (fmdom (blobs s)))),
      s\<lparr>blobs := fmfilter (\<lambda>cid. \<not> cleanup_expired s now cid) (blobs s)\<rparr>)"

definition Count :: "Store \<Rightarrow> int" where
  "Count s = int (fcard (fmdom (blobs s)))"

text \<open>
  The count the specification describes: the entries whose TTL has not elapsed at \<open>now\<close>.
  This definition follows the specification's words and is compared with \<open>Count\<close>.
\<close>

definition spec_live_count :: "Store \<Rightarrow> Time \<Rightarrow> int" where
  "spec_live_count s now =
     int (fcard (ffilter (\<lambda>cid. \<not> cleanup_expired s now cid) (fmdom (blobs s))))"

section \<open>Package server: the relay's handlers\<close>

record Config =
  Port :: int
  MaxSize :: int
  MaxTTL :: Duration

definition DefaultConfig :: Config where
  "DefaultConfig = \<lparr>Port = 3141, MaxSize = 10 * 1024 * 1024, MaxTTL = 3600 * Second\<rparr>"

text \<open>
  The JSON bodies. The fields of \<^verbatim>\<open>SendRequest\<close> are \<^verbatim>\<open>CodeID\<close>, \<^verbatim>\<open>Data\<close>, \<^verbatim>\<open>TTL\<close>; those of
  \<^verbatim>\<open>SendResponse\<close> are \<^verbatim>\<open>OK\<close>, \<^verbatim>\<open>Expiry\<close>, \<^verbatim>\<open>Error\<close>; those of \<^verbatim>\<open>ReceiveResponse\<close> are \<^verbatim>\<open>OK\<close>,
  \<^verbatim>\<open>Data\<close>, \<^verbatim>\<open>Error\<close>. A prefix keeps the field names of the records apart. \<^verbatim>\<open>TTL\<close> is a Go
  \<^verbatim>\<open>int\<close>, taken as 64 bits wide. The handler fills \<^verbatim>\<open>Expiry\<close> with
  \<^verbatim>\<open>expiry.Format(time.RFC3339)\<close>; the model keeps the instant \<^verbatim>\<open>expiry\<close> that is rendered,
  and \<open>None\<close> where the field is left empty.
\<close>

record SendRequest =
  req_CodeID :: string
  req_Data :: string
  req_TTL :: int

record SendResponse =
  send_OK :: bool
  send_Expiry :: "Time option"
  send_Error :: string

record ReceiveResponse =
  recv_OK :: bool
  recv_Data :: string
  recv_Error :: string

record HealthResponse =
  health_ok :: bool
  health_blobs :: int

text \<open>The status codes of package net/http that the handlers use.\<close>

definition StatusOK :: int where "StatusOK = 200"
definition StatusCreated :: int where "StatusCreated = 201"
definition StatusBadRequest :: int where "StatusBadRequest = 400"
definition StatusNotFound :: int where "StatusNotFound = 404"
definition StatusConflict :: int where "StatusConflict = 409"

text \<open>
  \<^verbatim>\<open>handleSend\<close>. The argument \<open>decoded\<close> is the outcome of decoding the size-limited request
  body into a \<^verbatim>\<open>SendRequest\<close>; \<open>now_put\<close> is the clock reading taken inside \<^verbatim>\<open>Put\<close> and
  \<open>now_resp\<close> the one taken afterwards for the expiry. The result is the status and body
  written by \<^verbatim>\<open>writeJSON\<close>, and the store.
\<close>

definition handleSend ::
  "Config \<Rightarrow> Store \<Rightarrow> Time \<Rightarrow> Time \<Rightarrow> go_error + SendRequest \<Rightarrow> (int \<times> SendResponse) \<times> Store"
where
  "handleSend config s now_put now_resp decoded =
     (case decoded of
        Inl err \<Rightarrow>
          ((StatusBadRequest,
            \<lparr>send_OK = False, send_Expiry = None, send_Error = ''invalid request body''\<rparr>), s)
      | Inr req \<Rightarrow>
          if req_CodeID req = [] \<or> req_Data req = []
          then ((StatusBadRequest,
                 \<lparr>send_OK = False, send_Expiry = None,
                  send_Error = ''code_id and data are required''\<rparr>), s)
          else
            let ttl = (if req_TTL req > 0
                       then (let requested = wrap64 (req_TTL req * Second)
                             in if requested < MaxTTL config then requested else MaxTTL config)
                       else MaxTTL config)
            in (case Put s now_put (req_CodeID req) (bytes_of_string (req_Data req)) ttl of
                  (False, s') \<Rightarrow>
                    ((StatusConflict,
                      \<lparr>send_OK = False, send_Expiry = None,
                       send_Error = ''code ID already exists, try again''\<rparr>), s')
                | (True, s') \<Rightarrow>
                    ((StatusCreated,
                      \<lparr>send_OK = True, send_Expiry = Some (Add now_resp ttl),
                       send_Error = []\<rparr>), s')))"

definition handleReceive :: "Store \<Rightarrow> Time \<Rightarrow> string \<Rightarrow> (int \<times> ReceiveResponse) \<times> Store" where
  "handleReceive s now cid =
     (if cid = []
      then ((StatusBadRequest,
             \<lparr>recv_OK = False, recv_Data = [], recv_Error = ''missing code ID''\<rparr>), s)
      else
        (case GetAndDelete s now cid of
           (None, s') \<Rightarrow>
             ((StatusNotFound,
               \<lparr>recv_OK = False, recv_Data = [], recv_Error = ''not found or expired''\<rparr>), s')
         | (Some bs, s') \<Rightarrow>
             ((StatusOK,
               \<lparr>recv_OK = True, recv_Data = string_of_bytes (Some bs), recv_Error = []\<rparr>), s')))"

definition handleHealth :: "Store \<Rightarrow> int \<times> HealthResponse" where
  "handleHealth s = (StatusOK, \<lparr>health_ok = True, health_blobs = Count s\<rparr>)"

section \<open>Package client: the relay client\<close>

record Client =
  baseURL :: string

text \<open>
  What the HTTP exchange of \<^verbatim>\<open>Send\<close> comes to: the request could not be marshalled, the
  POST failed, the body could not be read, the body was not the JSON of a \<^verbatim>\<open>SendResponse\<close>,
  or a response with a status code and a decoded body arrived. The client's \<^verbatim>\<open>SendResponse\<close>
  has the fields of the server's and shares its record.
\<close>

datatype send_exchange =
    MarshalFailed string
  | PostFailed string
  | ReadFailed string
  | UnmarshalFailed string
  | Responded int SendResponse

definition Send :: "Client \<Rightarrow> send_exchange \<Rightarrow> go_error + SendResponse" where
  "Send c x =
     (case x of
        MarshalFailed e \<Rightarrow> Inl (Err (''marshaling request: '' @ e))
      | PostFailed e \<Rightarrow> Inl (Err (''connecting to relay server at '' @ baseURL c @ '': '' @ e))
      | ReadFailed e \<Rightarrow> Inl (Err (''reading response: '' @ e))
      | UnmarshalFailed e \<Rightarrow> Inl (Err (''parsing response: '' @ e))
      | Responded status sendResp \<Rightarrow>
          if \<not> send_OK sendResp
          then Inl (Err (''server error: '' @ send_Error sendResp))
          else Inr sendResp)"


section \<open>Package strings\<close>

text \<open>
  The functions of Go's package strings that the code calls, for a separator that is not
  empty. \<open>Index\<close> is the position of the first occurrence, \<open>None\<close> for -1.
\<close>

fun Index :: "string \<Rightarrow> string \<Rightarrow> nat option" where
  "Index [] substr = (if substr = [] then Some 0 else None)"
| "Index (c # cs) substr =
     (if take (length substr) (c # cs) = substr then Some 0
      else map_option Suc (Index cs substr))"

text \<open>
  The loop of \<^verbatim>\<open>genSplit\<close>: at most \<open>k\<close> rounds, each cutting the text at the next
  separator; the rest of the text is the last element.
\<close>

fun genSplit_loop :: "nat \<Rightarrow> string \<Rightarrow> string \<Rightarrow> string list" where
  "genSplit_loop 0 s sep = [s]"
| "genSplit_loop (Suc k) s sep =
     (case Index s sep of
        None \<Rightarrow> [s]
      | Some m \<Rightarrow> take m s # genSplit_loop k (drop (m + length sep) s) sep)"

text \<open>
  \<^verbatim>\<open>SplitN(s, sep, n)\<close> for \<open>n \<ge> 0\<close>: no element for \<open>n = 0\<close>, otherwise at most \<open>n\<close> elements,
  \<open>n\<close> being capped at \<open>len(s) + 1\<close>.
\<close>

definition SplitN :: "string \<Rightarrow> string \<Rightarrow> nat \<Rightarrow> string list" where
  "SplitN s sep n = (if n = 0 then [] else genSplit_loop (min n (length s + 1) - 1) s sep)"

text \<open>
  \<^verbatim>\<open>Split(s, sep)\<close> is \<^verbatim>\<open>genSplit\<close> with \<open>n = Count(s, sep) + 1\<close>, capped at \<open>len(s) + 1\<close>. The loop
  ends at the first round that finds no separator, which is the round after
  \<open>Count(s, sep)\<close> cuts, so the cap \<open>len(s)\<close> on the rounds gives the same elements.
\<close>

definition Split :: "string \<Rightarrow> string \<Rightarrow> string list" where
  "Split s sep = genSplit_loop (length s) s sep"

fun Join :: "string list \<Rightarrow> string \<Rightarrow> string" where
  "Join [] sep = []"
| "Join [e] sep = e"
| "Join (e # es) sep = e @ sep @ Join es sep"

text \<open>\<^verbatim>\<open>%d\<close> of package fmt on a number that is not negative.\<close>

fun itoa :: "nat \<Rightarrow> string" where
  "itoa n = (if n < 10 then [char_of (48 + n)] else itoa (n div 10) @ [char_of (48 + n mod 10)])"

declare itoa.simps [simp del]

section \<open>Package crypto/rand\<close>

text \<open>
  The entropy source is the sequence of outcomes of the successive calls of
  \<^verbatim>\<open>rand.Int(rand.Reader, max)\<close>: the message of an error, or the integer drawn. The position
  in the sequence is passed along.
\<close>

type_synonym rand_reader = "nat \<Rightarrow> string + nat"

section \<open>Package wordlist\<close>

definition Words :: "string list" where
  "Words =
    [
     ''acid'', ''acme'', ''aged'', ''also'', ''arch'', ''aqua'', ''area'', ''atom'',
     ''aunt'', ''avid'', ''axis'', ''back'', ''bald'', ''band'', ''bark'', ''barn'',
     ''base'', ''bath'', ''bean'', ''bear'', ''beat'', ''belt'', ''bend'', ''bike'',
     ''bird'', ''bite'', ''blow'', ''blue'', ''blur'', ''boat'', ''bold'', ''bolt'',
     ''bomb'', ''bond'', ''bone'', ''book'', ''boot'', ''bore'', ''boss'', ''bowl'',
     ''bulk'', ''bump'', ''burn'', ''buzz'', ''cafe'', ''cage'', ''cake'', ''calm'',
     ''came'', ''camp'', ''cape'', ''card'', ''care'', ''cart'', ''case'', ''cash'',
     ''cast'', ''cave'', ''chat'', ''chip'', ''chop'', ''city'', ''clad'', ''clam'',
     ''clan'', ''claw'', ''clay'', ''clip'', ''club'', ''clue'', ''coal'', ''coat'',
     ''code'', ''coil'', ''coin'', ''cold'', ''colt'', ''cone'', ''cook'', ''cool'',
     ''cope'', ''copy'', ''cord'', ''core'', ''corn'', ''cost'', ''cozy'', ''crew'',
     ''crop'', ''crow'', ''cube'', ''curl'', ''cute'', ''damp'', ''dare'', ''dark'',
     ''dart'', ''dash'', ''dawn'', ''deal'', ''dear'', ''deck'', ''deed'', ''deep'',
     ''deer'', ''demo'', ''dent'', ''desk'', ''dial'', ''dice'', ''dime'', ''dock'',
     ''dome'', ''door'', ''dose'', ''dove'', ''down'', ''draw'', ''drip'', ''drop'',
     ''drum'', ''dull'', ''dune'', ''dusk'', ''dust'', ''each'', ''earl'', ''earn'',
     ''ease'', ''east'', ''echo'', ''edge'', ''edit'', ''else'', ''epic'', ''even'',
     ''ever'', ''evil'', ''exam'', ''exit'', ''face'', ''fact'', ''fade'', ''fail'',
     ''fair'', ''fall'', ''fame'', ''fang'', ''farm'', ''fast'', ''fate'', ''fawn'',
     ''fear'', ''feat'', ''feed'', ''feel'', ''file'', ''fill'', ''film'', ''find'',
     ''fine'', ''fire'', ''firm'', ''fish'', ''fist'', ''five'', ''flag'', ''flat'',
     ''fled'', ''flex'', ''flip'', ''flow'', ''foam'', ''fold'', ''folk'', ''fond'',
     ''font'', ''food'', ''foot'', ''ford'', ''fork'', ''form'', ''fort'', ''foul'',
     ''four'', ''free'', ''frog'', ''from'', ''fuel'', ''full'', ''fund'', ''fury'',
     ''fuse'', ''gain'', ''gait'', ''gale'', ''game'', ''gang'', ''gate'', ''gave'',
     ''gaze'', ''gear'', ''gene'', ''gift'', ''glad'', ''glow'', ''glue'', ''goat'',
     ''gold'', ''golf'', ''gone'', ''good'', ''grab'', ''gray'', ''grew'', ''grid'',
     ''grim'', ''grin'', ''grip'', ''grit'', ''grow'', ''gulf'', ''guru'', ''gust'',
     ''half'', ''hall'', ''halt'', ''hand'', ''hang'', ''hard'', ''harm'', ''harp'',
     ''hash'', ''haste'', ''hate'', ''haul'', ''hawk'', ''haze'', ''head'', ''heal'',
     ''heap'', ''heat'', ''held'', ''helm'', ''help'', ''herb'', ''herd'', ''hero'',
     ''hide'', ''high'', ''hike'', ''hill'', ''hint'', ''hire'', ''hold'', ''hole''
    ]"

text \<open>
  The loop of \<open>Pick\<close>: \<open>n\<close> more words, the next draw being number \<open>pos\<close>. Indexing \<open>Words\<close>
  beyond its length panics.
\<close>

fun Pick_loop :: "rand_reader \<Rightarrow> nat \<Rightarrow> nat \<Rightarrow> go_error + string list" where
  "Pick_loop r pos 0 = Inr []"
| "Pick_loop r pos (Suc n) =
     (case r pos of
        Inl err \<Rightarrow> Inl (Err err)
      | Inr idx \<Rightarrow>
          if idx < length Words
          then (case Pick_loop r (Suc pos) n of
                  Inl err \<Rightarrow> Inl err
                | Inr ws \<Rightarrow> Inr (Words ! idx # ws))
          else Inl (Panic ''index out of range''))"

definition Pick :: "rand_reader \<Rightarrow> nat \<Rightarrow> nat \<Rightarrow> string \<Rightarrow> go_error + string" where
  "Pick r pos n sep =
     (case Pick_loop r pos n of
        Inl err \<Rightarrow> Inl err
      | Inr ws \<Rightarrow> Inr (Join ws sep))"

section \<open>Package crypto\<close>

definition CodeIDLength :: nat where "CodeIDLength = 10"
definition PassphraseWords :: nat where "PassphraseWords = 4"
definition PassphraseSep :: string where "PassphraseSep = ''-''"
definition CodeSep :: string where "CodeSep = ''-''"
definition hkdfSalt :: string where "hkdfSalt = ''git-share-v1''"
definition hkdfInfo :: string where "hkdfInfo = ''encryption-key''"

definition base62Chars :: string where
  "base62Chars = ''0123456789ABCDEFGHIJKLMNOPQRSTUVWXYZabcdefghijklmnopqrstuvwxyz''"

text \<open>\<^verbatim>\<open>fmt.Errorf("...: %w", err)\<close>: the message is prefixed; a panic is not an error value.\<close>

definition wrap_error :: "string \<Rightarrow> go_error \<Rightarrow> go_error" where
  "wrap_error context e = (case e of Err m \<Rightarrow> Err (context @ '': '' @ m) | Panic p \<Rightarrow> Panic p)"

text \<open>The loop of \<open>generateCodeID\<close>: \<open>n\<close> more characters, the next draw being number \<open>pos\<close>.\<close>

fun generateCodeID_loop :: "rand_reader \<Rightarrow> nat \<Rightarrow> nat \<Rightarrow> go_error + string" where
  "generateCodeID_loop r pos 0 = Inr []"
| "generateCodeID_loop r pos (Suc n) =
     (case r pos of
        Inl err \<Rightarrow> Inl (Err err)
      | Inr idx \<Rightarrow>
          if idx < length base62Chars
          then (case generateCodeID_loop r (Suc pos) n of
                  Inl err \<Rightarrow> Inl err
                | Inr b \<Rightarrow> Inr (base62Chars ! idx # b))
          else Inl (Panic ''index out of range''))"

definition generateCodeID :: "rand_reader \<Rightarrow> nat \<Rightarrow> go_error + string" where
  "generateCodeID r pos = generateCodeID_loop r pos CodeIDLength"

text \<open>
  \<open>GenerateCode\<close> returns the code, the code ID and the passphrase. The code ID takes the
  first \<open>CodeIDLength\<close> draws of the entropy source and the passphrase the draws after them.
\<close>

definition GenerateCode :: "rand_reader \<Rightarrow> go_error + (string \<times> string \<times> string)" where
  "GenerateCode r =
     (case generateCodeID r 0 of
        Inl err \<Rightarrow> Inl (wrap_error ''generating code ID'' err)
      | Inr codeID \<Rightarrow>
          (case Pick r CodeIDLength PassphraseWords PassphraseSep of
             Inl err \<Rightarrow> Inl (wrap_error ''generating passphrase'' err)
           | Inr passphrase \<Rightarrow> Inr (codeID @ CodeSep @ passphrase, codeID, passphrase)))"

definition ParseCode :: "string \<Rightarrow> go_error + (string \<times> string)" where
  "ParseCode code =
     (let parts = SplitN code CodeSep 2
      in if length parts \<noteq> 2 \<or> parts ! 0 = [] \<or> parts ! 1 = []
         then Inl (Err ''invalid code format: expected <codeId>-<word1>-<word2>-<word3>-<word4>'')
         else
           let words = Split (parts ! 1) PassphraseSep
           in if length words \<noteq> PassphraseWords
              then Inl (Err (''invalid code format: passphrase should have '' @ itoa PassphraseWords
                             @ '' words, got '' @ itoa (length words)))
              else Inr (parts ! 0, parts ! 1))"

text \<open>
  The primitives of golang.org/x/crypto are not part of the repository and are parameters
  of the model: the key size and the nonce size of the XChaCha20-Poly1305 AEAD, its \<open>Seal\<close>
  and \<open>Open\<close> with no additional data (key, nonce, text; \<open>Seal\<close> returns the encrypted text
  followed by the tag, \<open>Open\<close> the plaintext or the message of its error), and the outcome of
  \<^verbatim>\<open>io.ReadFull\<close> on the HKDF-SHA256 reader (secret, salt, info, number of bytes; the bytes
  read or the message of the error).
\<close>

record crypto_lib =
  KeySize :: nat
  NonceSizeX :: nat
  Seal :: "bytes \<Rightarrow> bytes \<Rightarrow> bytes \<Rightarrow> bytes"
  Open :: "bytes \<Rightarrow> bytes \<Rightarrow> bytes \<Rightarrow> string + bytes"
  hkdf_ReadFull :: "bytes \<Rightarrow> bytes \<Rightarrow> bytes \<Rightarrow> nat \<Rightarrow> string + bytes"

text \<open>\<^verbatim>\<open>chacha20poly1305.NewX(key)\<close> refuses a key of the wrong length.\<close>

definition NewX :: "crypto_lib \<Rightarrow> bytes \<Rightarrow> go_error + bytes" where
  "NewX L key =
     (if length key \<noteq> KeySize L then Inl (Err ''chacha20poly1305: bad key length'')
      else Inr key)"

definition DeriveKey :: "crypto_lib \<Rightarrow> string \<Rightarrow> go_error + bytes" where
  "DeriveKey L passphrase =
     (case hkdf_ReadFull L (map (\<lambda>c. of_char c) passphrase) (map (\<lambda>c. of_char c) hkdfSalt)
             (map (\<lambda>c. of_char c) hkdfInfo) (KeySize L) of
        Inl err \<Rightarrow> Inl (Err (''deriving key: '' @ err))
      | Inr key \<Rightarrow> Inr key)"

text \<open>
  \<open>Encrypt\<close>. The argument \<open>rnd\<close> is the outcome of \<^verbatim>\<open>rand.Read(nonce)\<close>: the message of an
  error, or the \<open>NonceSizeX\<close> bytes written into the nonce. \<^verbatim>\<open>Seal(nonce, nonce, plaintext, nil)\<close>
  appends the sealed text to the nonce.
\<close>

definition Encrypt :: "crypto_lib \<Rightarrow> string + bytes \<Rightarrow> bytes \<Rightarrow> bytes \<Rightarrow> go_error + bytes" where
  "Encrypt L rnd plaintext key =
     (case NewX L key of
        Inl err \<Rightarrow> Inl (wrap_error ''creating cipher'' err)
      | Inr aead \<Rightarrow>
          (case rnd of
             Inl err \<Rightarrow> Inl (Err (''generating nonce: '' @ err))
           | Inr nonce \<Rightarrow> Inr (nonce @ Seal L aead nonce plaintext)))"

definition Decrypt :: "crypto_lib \<Rightarrow> bytes \<Rightarrow> bytes \<Rightarrow> go_error + bytes" where
  "Decrypt L ciphertext key =
     (case NewX L key of
        Inl err \<Rightarrow> Inl (wrap_error ''creating cipher'' err)
      | Inr aead \<Rightarrow>
          let nonceSize = NonceSizeX L
          in if length ciphertext < nonceSize then Inl (Err ''ciphertext too short'')
             else
               let nonce = take nonceSize ciphertext;
                   encrypted = drop nonceSize ciphertext
               in (case Open L aead nonce encrypted of
                     Inl err \<Rightarrow> Inl (Err (''decryption failed (wrong passphrase?): '' @ err))
                   | Inr plaintext \<Rightarrow> Inr plaintext))"

text \<open>
  An instance of the primitives on which the theorems about \<open>Encrypt\<close> and \<open>Decrypt\<close> are
  exercised: keys of 32 bytes, nonces of 24 bytes, a tag of 16 bytes. It seals by appending
  the first 16 bytes of the key as the tag, and opens by checking that tag; like the real
  AEAD it refuses every text shorter than the tag with its one authentication error. Its key
  derivation returns as many zero bytes as are asked for.
\<close>

definition example_lib :: crypto_lib where
  "example_lib =
     \<lparr>KeySize = 32, NonceSizeX = 24,
      Seal = (\<lambda>key nonce plaintext. plaintext @ take 16 key),
      Open = (\<lambda>key nonce sealed.
         if 16 \<le> length sealed \<and> drop (length sealed - 16) sealed = take 16 key
         then Inr (take (length sealed - 16) sealed)
         else Inl ''chacha20poly1305: message authentication failed''),
      hkdf_ReadFull = (\<lambda>secret salt info n. Inr (replicate n 0))\<rparr>"

section \<open>The store: one-time delivery, duplicates, expiry\<close>

lemma Put_absent:
  "fmlookup (blobs s) cid = None \<Longrightarrow>
   Put s t cid d ttl = (True, s\<lparr>blobs := fmupd cid \<lparr>Data = d, CreatedAt = t, TTL = ttl\<rparr> (blobs s)\<rparr>)"
  by (simp add: Put_def)

lemma Put_present:
  "fmlookup (blobs s) cid = Some b \<Longrightarrow> Put s t cid d ttl = (False, s)"
  by (simp add: Put_def)

lemma GetAndDelete_absent:
  "fmlookup (blobs s) cid = None \<Longrightarrow> GetAndDelete s t cid = (None, s)"
  by (simp add: GetAndDelete_def)

lemma GetAndDelete_present:
  "fmlookup (blobs s) cid = Some b \<Longrightarrow>
   GetAndDelete s t cid =
     (if Since t (CreatedAt b) > TTL b then None else Data b, s\<lparr>blobs := fmdrop cid (blobs s)\<rparr>)"
  by (simp add: GetAndDelete_def)

lemma GetAndDelete_removes:
  "fmlookup (blobs (snd (GetAndDelete s t cid))) cid = None"
  by (simp add: GetAndDelete_def split: option.splits)

text \<open>
  Claim C2. If \<open>cid\<close> is absent from the store, \<open>Put\<close> of data \<open>d\<close> under \<open>cid\<close> returns true;
  a \<open>GetAndDelete\<close> of \<open>cid\<close> that follows while no more than the TTL has elapsed since the
  insertion (which a positive TTL allows for an immediate call) returns \<open>d\<close>; and a second
  \<open>GetAndDelete\<close> of \<open>cid\<close>, at any time, with no \<open>Put\<close> in between, returns nil: the blob is
  delivered to at most one fetch.
\<close>

theorem put_getAndDelete_once:
  assumes absent: "fmlookup (blobs s) cid = None"
    and fresh: "Since t' t \<le> ttl"
  shows "fst (Put s t cid d ttl) = True
       \<and> fst (GetAndDelete (snd (Put s t cid d ttl)) t' cid) = d
       \<and> fst (GetAndDelete (snd (GetAndDelete (snd (Put s t cid d ttl)) t' cid)) t'' cid) = None"
proof -
  let ?s1 = "snd (Put s t cid d ttl)"
  have put: "Put s t cid d ttl =
      (True, s\<lparr>blobs := fmupd cid \<lparr>Data = d, CreatedAt = t, TTL = ttl\<rparr> (blobs s)\<rparr>)"
    using absent by (rule Put_absent)
  have stored: "fmlookup (blobs ?s1) cid = Some \<lparr>Data = d, CreatedAt = t, TTL = ttl\<rparr>"
    by (simp add: put)
  have first: "fst (GetAndDelete ?s1 t' cid) = d"
    using fresh by (simp add: GetAndDelete_present [OF stored])
  have gone: "fmlookup (blobs (snd (GetAndDelete ?s1 t' cid))) cid = None"
    by (rule GetAndDelete_removes)
  have second: "fst (GetAndDelete (snd (GetAndDelete ?s1 t' cid)) t'' cid) = None"
    by (simp add: GetAndDelete_absent [OF gone])
  show ?thesis
    using put first second by simp
qed

theorem put_getAndDelete_once_witness:
  "fst (Put NewStore 0 ''abc123'' (bytes_of_string ''encrypted-blob'') 3600000000000) = True
   \<and> fst (GetAndDelete (snd (Put NewStore 0 ''abc123'' (bytes_of_string ''encrypted-blob'')
            3600000000000)) 5 ''abc123'') = bytes_of_string ''encrypted-blob''
   \<and> fst (GetAndDelete (snd (GetAndDelete (snd (Put NewStore 0 ''abc123''
            (bytes_of_string ''encrypted-blob'') 3600000000000)) 5 ''abc123'')) 6 ''abc123'') = None"
proof -
  have absent: "fmlookup (blobs NewStore) ''abc123'' = None"
    by (simp add: NewStore_def)
  have fresh: "Since 5 0 \<le> 3600000000000"
    by (simp add: Since_def Sub_def wrap64_def maxDuration_def minDuration_def)
  show ?thesis
    using put_getAndDelete_once [OF absent fresh] by simp
qed

text \<open>
  Claim C4. If \<open>cid\<close> is present holding data \<open>d1\<close>, \<open>Put\<close> of \<open>d2\<close> under \<open>cid\<close> returns false
  and the store is the one before the call; so a later \<open>GetAndDelete\<close> of \<open>cid\<close> returns what
  it would have returned without the second \<open>Put\<close>: the data \<open>d1\<close> of the first insertion
  while that entry has not expired (nil once it has), and not \<open>d2\<close>.
\<close>

theorem put_duplicate_rejected:
  assumes present: "fmlookup (blobs s) cid = Some b" and held: "Data b = d1"
  shows "Put s t cid d2 ttl = (False, s)
       \<and> GetAndDelete (snd (Put s t cid d2 ttl)) t' cid = GetAndDelete s t' cid
       \<and> fst (GetAndDelete (snd (Put s t cid d2 ttl)) t' cid) =
           (if Since t' (CreatedAt b) > TTL b then None else d1)"
  using present held by (simp add: Put_present GetAndDelete_present)

theorem put_duplicate_rejected_witness:
  "Put (snd (Put NewStore 0 ''abc123'' (bytes_of_string ''data1'') 3600000000000)) 1 ''abc123''
       (bytes_of_string ''data2'') 3600000000000
     = (False, snd (Put NewStore 0 ''abc123'' (bytes_of_string ''data1'') 3600000000000))
   \<and> fst (GetAndDelete (snd (Put (snd (Put NewStore 0 ''abc123'' (bytes_of_string ''data1'')
            3600000000000)) 1 ''abc123'' (bytes_of_string ''data2'') 3600000000000)) 2 ''abc123'')
     = bytes_of_string ''data1''"
proof -
  let ?s = "snd (Put NewStore 0 ''abc123'' (bytes_of_string ''data1'') 3600000000000)"
  let ?b = "\<lparr>Data = bytes_of_string ''data1'', CreatedAt = 0, TTL = 3600000000000\<rparr>"
  have present: "fmlookup (blobs ?s) ''abc123'' = Some ?b"
    by (simp add: Put_def NewStore_def)
  have held: "Data ?b = bytes_of_string ''data1''"
    by simp
  have fresh: "\<not> Since 2 (CreatedAt ?b) > TTL ?b"
    by (simp add: Since_def Sub_def wrap64_def maxDuration_def minDuration_def)
  note dup = put_duplicate_rejected [OF present held, of 1 "bytes_of_string ''data2''" 3600000000000 2]
  from dup have rejected: "Put ?s 1 ''abc123'' (bytes_of_string ''data2'') 3600000000000 = (False, ?s)"
    by (rule conjunct1)
  from dup have "fst (GetAndDelete (snd (Put ?s 1 ''abc123'' (bytes_of_string ''data2'')
        3600000000000)) 2 ''abc123'')
      = (if Since 2 (CreatedAt ?b) > TTL ?b then None else bytes_of_string ''data1'')"
    by (rule conjunct2 [THEN conjunct2])
  then have kept: "fst (GetAndDelete (snd (Put ?s 1 ''abc123'' (bytes_of_string ''data2'')
        3600000000000)) 2 ''abc123'') = bytes_of_string ''data1''"
    by (simp only: if_not_P [OF fresh])
  show ?thesis
    using rejected kept by (rule conjI)
qed

text \<open>
  Claim C5. For a stored entry whose age since insertion exceeds its TTL, \<open>GetAndDelete\<close> of
  its code ID returns nil and removes the entry. The check is \<open>GetAndDelete\<close>'s own: the
  result is nil on the store as it is, where no sweep has removed the entry, and equally on
  the store left by a sweep run at any time \<open>tc\<close>.
\<close>

theorem getAndDelete_expired:
  assumes present: "fmlookup (blobs s) cid = Some b"
    and expired: "Since now (CreatedAt b) > TTL b"
  shows "GetAndDelete s now cid = (None, s\<lparr>blobs := fmdrop cid (blobs s)\<rparr>)
       \<and> fmlookup (blobs (snd (GetAndDelete s now cid))) cid = None
       \<and> fst (GetAndDelete (snd (Cleanup s tc)) now cid) = None"
proof -
  have own: "GetAndDelete s now cid = (None, s\<lparr>blobs := fmdrop cid (blobs s)\<rparr>)"
    using expired by (simp add: GetAndDelete_present [OF present])
  have removed: "fmlookup (blobs (snd (GetAndDelete s now cid))) cid = None"
    by (rule GetAndDelete_removes)
  have swept: "fst (GetAndDelete (snd (Cleanup s tc)) now cid) = None"
  proof (cases "cleanup_expired s tc cid")
    case True
    then have "fmlookup (blobs (snd (Cleanup s tc))) cid = None"
      by (simp add: Cleanup_def)
    then show ?thesis
      by (simp add: GetAndDelete_absent)
  next
    case False
    then have "fmlookup (blobs (snd (Cleanup s tc))) cid = Some b"
      using present by (simp add: Cleanup_def)
    then show ?thesis
      using expired by (simp add: GetAndDelete_present)
  qed
  show ?thesis
    using own removed swept by simp
qed

theorem getAndDelete_expired_witness:
  "GetAndDelete (snd (Put NewStore 0 ''abc123'' (bytes_of_string ''data'') 1000000)) 10000000 ''abc123''
     = (None, (snd (Put NewStore 0 ''abc123'' (bytes_of_string ''data'') 1000000))
          \<lparr>blobs := fmdrop ''abc123''
             (blobs (snd (Put NewStore 0 ''abc123'' (bytes_of_string ''data'') 1000000)))\<rparr>)
   \<and> fst (GetAndDelete (snd (Cleanup (snd (Put NewStore 0 ''abc123'' (bytes_of_string ''data'')
            1000000)) 500)) 10000000 ''abc123'') = None"
proof -
  let ?s = "snd (Put NewStore 0 ''abc123'' (bytes_of_string ''data'') 1000000)"
  let ?b = "\<lparr>Data = bytes_of_string ''data'', CreatedAt = 0, TTL = 1000000\<rparr>"
  have present: "fmlookup (blobs ?s) ''abc123'' = Some ?b"
    by (simp add: Put_def NewStore_def)
  have expired: "Since 10000000 (CreatedAt ?b) > TTL ?b"
    by (simp add: Since_def Sub_def wrap64_def maxDuration_def minDuration_def)
  show ?thesis
    using getAndDelete_expired [OF present expired, of 500] by simp
qed

section \<open>The store: what Count counts\<close>

lemma live_le_Count: "spec_live_count s now \<le> Count s"
proof -
  have "ffilter (\<lambda>cid. \<not> cleanup_expired s now cid) (fmdom (blobs s)) |\<subseteq>| fmdom (blobs s)"
    by auto
  then show ?thesis
    unfolding spec_live_count_def Count_def by (simp add: fcard_mono)
qed

lemma Count_eq_live_iff:
  "Count s = spec_live_count s now \<longleftrightarrow>
   (\<forall>cid b. fmlookup (blobs s) cid = Some b \<longrightarrow> \<not> Sub now (CreatedAt b) > TTL b)"
proof
  let ?live = "ffilter (\<lambda>cid. \<not> cleanup_expired s now cid) (fmdom (blobs s))"
  assume "Count s = spec_live_count s now"
  then have "fcard (fmdom (blobs s)) \<le> fcard ?live"
    by (simp add: Count_def spec_live_count_def)
  moreover have "?live |\<subseteq>| fmdom (blobs s)"
    by auto
  ultimately have same: "?live = fmdom (blobs s)"
    by (rule fcard_seteq [rotated])
  show "\<forall>cid b. fmlookup (blobs s) cid = Some b \<longrightarrow> \<not> Sub now (CreatedAt b) > TTL b"
  proof (intro allI impI)
    fix cid b
    assume stored: "fmlookup (blobs s) cid = Some b"
    then have "cid |\<in>| fmdom (blobs s)"
      by (simp add: fmdomI)
    then have "cid |\<in>| ?live"
      using same by simp
    then have "\<not> cleanup_expired s now cid"
      by simp
    then show "\<not> Sub now (CreatedAt b) > TTL b"
      using stored by (simp add: cleanup_expired_def)
  qed
next
  assume none: "\<forall>cid b. fmlookup (blobs s) cid = Some b \<longrightarrow> \<not> Sub now (CreatedAt b) > TTL b"
  have "\<not> cleanup_expired s now cid" for cid
    using none by (auto simp: cleanup_expired_def split: option.splits)
  then have "ffilter (\<lambda>cid. \<not> cleanup_expired s now cid) (fmdom (blobs s)) = fmdom (blobs s)"
    by auto
  then show "Count s = spec_live_count s now"
    by (simp add: Count_def spec_live_count_def)
qed

lemma Count_Cleanup: "Count (snd (Cleanup s now)) = spec_live_count s now"
  by (simp add: Count_def Cleanup_def spec_live_count_def)

lemma Count_live_plus_expired: "Count s = spec_live_count s now + fst (Cleanup s now)"
proof -
  let ?A = "fmdom (blobs s)"
  let ?P = "cleanup_expired s now"
  have split: "?A = ffilter (\<lambda>cid. \<not> ?P cid) ?A |\<union>| ffilter ?P ?A"
    by auto
  have disjoint: "ffilter (\<lambda>cid. \<not> ?P cid) ?A |\<inter>| ffilter ?P ?A = {||}"
    by auto
  have "fcard ?A = fcard (ffilter (\<lambda>cid. \<not> ?P cid) ?A |\<union>| ffilter ?P ?A)"
    using split by simp
  also have "\<dots> = fcard (ffilter (\<lambda>cid. \<not> ?P cid) ?A) + fcard (ffilter ?P ?A)"
    using disjoint by (rule fcard_funion_disjoint)
  finally show ?thesis
    by (simp add: Count_def spec_live_count_def Cleanup_def)
qed

lemma ffilter_finsert_if:
  "ffilter P (finsert x A) = (if P x then finsert x (ffilter P A) else ffilter P A)"
  by auto

lemma ffilter_fempty: "ffilter P {||} = {||}"
  by auto

text \<open>
  Claim C10, as stated, fails: \<open>Count\<close> is the length of the map, and an entry whose TTL has
  elapsed stays in the map until a fetch or a sweep removes it. One entry stored at instant
  0 with a TTL of 1 ms is still counted at 10 ms, where no entry is live.
\<close>

theorem count_live_counterexample:
  "Count (snd (Put NewStore 0 ''expired'' (bytes_of_string ''data'') 1000000)) = 1
   \<and> spec_live_count (snd (Put NewStore 0 ''expired'' (bytes_of_string ''data'') 1000000)) 10000000 = 0
   \<and> health_blobs (snd (handleHealth (snd (Put NewStore 0 ''expired'' (bytes_of_string ''data'')
        1000000)))) = 1"
  by (simp add: Count_def spec_live_count_def handleHealth_def Put_def NewStore_def
      cleanup_expired_def Sub_def wrap64_def maxDuration_def minDuration_def
      fcard_finsert_if ffilter_finsert_if ffilter_fempty)

text \<open>
  Claim C10, amended. \<open>Count\<close> returns the number of entries currently stored, expired or
  not, and this is the integer in the \<open>blobs\<close> field of the health response. It is the live
  count at \<open>now\<close> plus the number of entries a sweep at \<open>now\<close> would remove, so it is never
  below the live count, equals it exactly when no stored entry has outlived its TTL, and
  equals it right after a sweep.
\<close>

theorem count_stored_entries:
  "handleHealth s = (StatusOK, \<lparr>health_ok = True, health_blobs = Count s\<rparr>)
   \<and> Count s = spec_live_count s now + fst (Cleanup s now)
   \<and> spec_live_count s now \<le> Count s
   \<and> (Count s = spec_live_count s now \<longleftrightarrow>
        (\<forall>cid b. fmlookup (blobs s) cid = Some b \<longrightarrow> \<not> Sub now (CreatedAt b) > TTL b))
   \<and> Count (snd (Cleanup s now)) = spec_live_count s now"
  using Count_live_plus_expired [of s now] live_le_Count [of s now] Count_eq_live_iff [of s now]
    Count_Cleanup [of s now]
  by (simp add: handleHealth_def)

theorem count_stored_entries_witness:
  "handleHealth (snd (Put NewStore 0 ''fresh'' (bytes_of_string ''data'') 3600000000000))
     = (StatusOK, \<lparr>health_ok = True, health_blobs = 1\<rparr>)
   \<and> spec_live_count (snd (Put NewStore 0 ''fresh'' (bytes_of_string ''data'') 3600000000000)) 5 = 1"
proof -
  let ?s = "snd (Put NewStore 0 ''fresh'' (bytes_of_string ''data'') 3600000000000)"
  note th = count_stored_entries [of ?s 5]
  have unexpired: "\<forall>cid b. fmlookup (blobs ?s) cid = Some b \<longrightarrow> \<not> Sub 5 (CreatedAt b) > TTL b"
    by (auto simp: Put_def NewStore_def Sub_def wrap64_def maxDuration_def minDuration_def
        split: if_splits)
  have one: "Count ?s = 1"
    by (simp add: Count_def Put_def NewStore_def fcard_finsert_if)
  from th unexpired have "Count ?s = spec_live_count ?s 5"
    by blast
  with one have live: "spec_live_count ?s 5 = 1"
    by simp
  from th have "handleHealth ?s = (StatusOK, \<lparr>health_ok = True, health_blobs = Count ?s\<rparr>)"
    by (rule conjunct1)
  with one live show ?thesis
    by simp
qed

section \<open>The relay: send\<close>

lemma wrap64_in_range: "- (2 ^ 63) \<le> k \<Longrightarrow> k < 2 ^ 63 \<Longrightarrow> wrap64 k = k"
  unfolding wrap64_def by (rule signed_take_bit_int_eq_self)

lemma handleSend_stored:
  assumes "req_CodeID req \<noteq> []" and "req_Data req \<noteq> []"
    and "fmlookup (blobs s) (req_CodeID req) = None"
    and "ttl = (if req_TTL req > 0
                then (let requested = wrap64 (req_TTL req * Second)
                      in if requested < MaxTTL config then requested else MaxTTL config)
                else MaxTTL config)"
  shows "handleSend config s tp tr (Inr req) =
     ((StatusCreated, \<lparr>send_OK = True, send_Expiry = Some (Add tr ttl), send_Error = []\<rparr>),
      s\<lparr>blobs := fmupd (req_CodeID req)
            \<lparr>Data = bytes_of_string (req_Data req), CreatedAt = tp, TTL = ttl\<rparr> (blobs s)\<rparr>)"
  using assms by (simp add: handleSend_def Put_def Let_def)

lemma handleSend_duplicate:
  assumes "req_CodeID req \<noteq> []" and "req_Data req \<noteq> []"
    and "fmlookup (blobs s) (req_CodeID req) = Some b"
  shows "handleSend config s tp tr (Inr req) =
     ((StatusConflict,
       \<lparr>send_OK = False, send_Expiry = None, send_Error = ''code ID already exists, try again''\<rparr>), s)"
  using assms by (simp add: handleSend_def Put_def Let_def)

lemma handleSend_status_created:
  "fst (fst (handleSend config s tp tr decoded)) = StatusCreated \<longleftrightarrow>
   (\<exists>req. decoded = Inr req \<and> req_CodeID req \<noteq> [] \<and> req_Data req \<noteq> []
          \<and> fmlookup (blobs s) (req_CodeID req) = None)"
  by (cases decoded)
    (auto simp: handleSend_def Put_def Let_def StatusCreated_def StatusBadRequest_def
      StatusConflict_def split: option.splits)

lemma handleSend_status_conflict:
  "fst (fst (handleSend config s tp tr decoded)) = StatusConflict \<longleftrightarrow>
   (\<exists>req. decoded = Inr req \<and> req_CodeID req \<noteq> [] \<and> req_Data req \<noteq> []
          \<and> fmlookup (blobs s) (req_CodeID req) \<noteq> None)"
  by (cases decoded)
    (auto simp: handleSend_def Put_def Let_def StatusCreated_def StatusBadRequest_def
      StatusConflict_def split: option.splits)

text \<open>
  The multiplication by \<^verbatim>\<open>time.Second\<close> is done in \<^verbatim>\<open>int64\<close> and is not guarded: a requested
  TTL of 9223372037 seconds wraps around to a negative duration, which is below the
  maximum and is stored as it is.
\<close>

lemma handleSend_ttl_overflow:
  "handleSend DefaultConfig NewStore 0 0
     (Inr \<lparr>req_CodeID = ''abc123'', req_Data = ''ZGF0YQ=='', req_TTL = 9223372037\<rparr>)
   = ((StatusCreated,
       \<lparr>send_OK = True, send_Expiry = Some (- 9223372036709551616), send_Error = []\<rparr>),
      \<lparr>blobs = fmupd ''abc123''
         \<lparr>Data = bytes_of_string ''ZGF0YQ=='', CreatedAt = 0, TTL = - 9223372036709551616\<rparr>
         fmempty\<rparr>)"
  by (simp add: handleSend_def Put_def NewStore_def DefaultConfig_def Second_def wrap64_def
      Add_def Let_def)

text \<open>
  Claim C6, as stated, fails on the expiry: the response does not carry the insertion time
  plus the applied TTL. The insertion time is the clock reading taken inside \<open>Put\<close>; the
  expiry is computed from a second reading taken after \<open>Put\<close> has returned. With the
  insertion at 0.999999999 s and the second reading at 1 s, a request for 60 s is answered
  with the expiry 61 s, while the entry expires at 60.999999999 s, in another whole second
  of the RFC 3339 rendering.
\<close>

theorem handleSend_expiry_counterexample:
  "send_Expiry (snd (fst (handleSend DefaultConfig NewStore 999999999 1000000000
      (Inr \<lparr>req_CodeID = ''abc123'', req_Data = ''ZGF0YQ=='', req_TTL = 60\<rparr>))))
     = Some 61000000000
   \<and> map_option (\<lambda>b. Add (CreatedAt b) (TTL b))
       (fmlookup (blobs (snd (handleSend DefaultConfig NewStore 999999999 1000000000
          (Inr \<lparr>req_CodeID = ''abc123'', req_Data = ''ZGF0YQ=='', req_TTL = 60\<rparr>)))) ''abc123'')
     = Some 60999999999"
  by (simp add: handleSend_def Put_def NewStore_def DefaultConfig_def Second_def wrap64_def
      Add_def Let_def)

text \<open>
  Claim C6, amended. For every send request the relay accepts (status 201) whose requested
  TTL in seconds, as nanoseconds, fits the 64-bit duration: the TTL stored with the entry is
  min(requested TTL, configured maximum) when the requested TTL is positive, and the
  configured maximum, which is the server's only default, when it is zero or negative; the
  entry's insertion time is the clock reading \<open>tp\<close> of \<open>Put\<close>; and the response carries the
  clock reading \<open>tr\<close> taken after the insertion plus the applied TTL, which is not before
  the insertion time plus the applied TTL as the clock does not run backwards.
\<close>

theorem handleSend_ttl_expiry:
  assumes accepted: "fst (fst (handleSend config s tp tr (Inr req))) = StatusCreated"
    and in_range: "req_TTL req * Second \<le> maxDuration"
    and applied: "ttl = (if 0 < req_TTL req then min (req_TTL req * Second) (MaxTTL config)
                         else MaxTTL config)"
  shows "fmlookup (blobs (snd (handleSend config s tp tr (Inr req)))) (req_CodeID req)
           = Some \<lparr>Data = bytes_of_string (req_Data req), CreatedAt = tp, TTL = ttl\<rparr>
       \<and> snd (fst (handleSend config s tp tr (Inr req)))
           = \<lparr>send_OK = True, send_Expiry = Some (Add tr ttl), send_Error = []\<rparr>
       \<and> (tp \<le> tr \<longrightarrow> Add tp ttl \<le> Add tr ttl)"
proof -
  from accepted have ok: "req_CodeID req \<noteq> []" "req_Data req \<noteq> []"
    "fmlookup (blobs s) (req_CodeID req) = None"
    by (auto simp: handleSend_status_created)
  have unwrapped: "wrap64 (req_TTL req * Second) = req_TTL req * Second" if "0 < req_TTL req"
  proof (rule wrap64_in_range)
    from that show "- (2 ^ 63) \<le> req_TTL req * Second"
      by (simp add: Second_def)
    from in_range show "req_TTL req * Second < 2 ^ 63"
      by (simp add: maxDuration_def)
  qed
  have ttl: "ttl = (if req_TTL req > 0
                then (let requested = wrap64 (req_TTL req * Second)
                      in if requested < MaxTTL config then requested else MaxTTL config)
                else MaxTTL config)"
    using applied unwrapped by (auto simp: Let_def min_def)
  show ?thesis
    by (simp add: handleSend_stored [OF ok ttl] Add_def)
qed

theorem handleSend_ttl_expiry_witness:
  "fmlookup (blobs (snd (handleSend DefaultConfig NewStore 10 20
       (Inr \<lparr>req_CodeID = ''abc123'', req_Data = ''ZGF0YQ=='', req_TTL = 7200\<rparr>)))) ''abc123''
     = Some \<lparr>Data = bytes_of_string ''ZGF0YQ=='', CreatedAt = 10, TTL = 3600000000000\<rparr>
   \<and> snd (fst (handleSend DefaultConfig NewStore 10 20
       (Inr \<lparr>req_CodeID = ''abc123'', req_Data = ''ZGF0YQ=='', req_TTL = 7200\<rparr>)))
     = \<lparr>send_OK = True, send_Expiry = Some 3600000000020, send_Error = []\<rparr>"
proof -
  let ?req = "\<lparr>req_CodeID = ''abc123'', req_Data = ''ZGF0YQ=='', req_TTL = 7200\<rparr>"
  have accepted: "fst (fst (handleSend DefaultConfig NewStore 10 20 (Inr ?req))) = StatusCreated"
    by (simp add: handleSend_def Put_def NewStore_def Let_def)
  have in_range: "req_TTL ?req * Second \<le> maxDuration"
    by (simp add: Second_def maxDuration_def)
  have applied: "3600000000000 = (if 0 < req_TTL ?req
      then min (req_TTL ?req * Second) (MaxTTL DefaultConfig) else MaxTTL DefaultConfig)"
    by (simp add: Second_def DefaultConfig_def)
  show ?thesis
    using handleSend_ttl_expiry [OF accepted in_range applied] by (simp add: Add_def)
qed

section \<open>The relay: receive\<close>

lemma handleReceive_absent:
  "cid \<noteq> [] \<Longrightarrow> fmlookup (blobs s) cid = None \<Longrightarrow>
   handleReceive s now cid =
     ((StatusNotFound,
       \<lparr>recv_OK = False, recv_Data = [], recv_Error = ''not found or expired''\<rparr>), s)"
  by (simp add: handleReceive_def GetAndDelete_absent)

lemma handleReceive_expired:
  "cid \<noteq> [] \<Longrightarrow> fmlookup (blobs s) cid = Some b \<Longrightarrow> Since now (CreatedAt b) > TTL b \<Longrightarrow>
   handleReceive s now cid =
     ((StatusNotFound,
       \<lparr>recv_OK = False, recv_Data = [], recv_Error = ''not found or expired''\<rparr>),
      s\<lparr>blobs := fmdrop cid (blobs s)\<rparr>)"
  by (simp add: handleReceive_def GetAndDelete_present)

lemma handleReceive_removes:
  "cid \<noteq> [] \<Longrightarrow> fmlookup (blobs (snd (handleReceive s now cid))) cid = None"
  by (simp add: handleReceive_def GetAndDelete_def split: option.splits)

text \<open>
  Claim C7. A receive request names a code ID, which is not empty. If that code ID never
  existed in the store, or its entry has outlived its TTL, or it has been consumed by an
  earlier receive, the relay answers in each case with the same response: status 404 and
  the body with the one error "not found or expired" and no data.
\<close>

theorem handleReceive_missing_uniform:
  assumes named: "cid \<noteq> []"
  shows "(fmlookup (blobs s) cid = None \<longrightarrow>
            fst (handleReceive s now cid) =
              (StatusNotFound,
               \<lparr>recv_OK = False, recv_Data = [], recv_Error = ''not found or expired''\<rparr>))
       \<and> (\<forall>b. fmlookup (blobs s) cid = Some b \<and> Since now (CreatedAt b) > TTL b \<longrightarrow>
            fst (handleReceive s now cid) =
              (StatusNotFound,
               \<lparr>recv_OK = False, recv_Data = [], recv_Error = ''not found or expired''\<rparr>))
       \<and> fst (handleReceive (snd (handleReceive s now cid)) now' cid) =
              (StatusNotFound,
               \<lparr>recv_OK = False, recv_Data = [], recv_Error = ''not found or expired''\<rparr>)"
proof (intro conjI allI impI)
  assume "fmlookup (blobs s) cid = None"
  with named show "fst (handleReceive s now cid) =
      (StatusNotFound, \<lparr>recv_OK = False, recv_Data = [], recv_Error = ''not found or expired''\<rparr>)"
    by (simp add: handleReceive_absent)
next
  fix b
  assume "fmlookup (blobs s) cid = Some b \<and> Since now (CreatedAt b) > TTL b"
  with named show "fst (handleReceive s now cid) =
      (StatusNotFound, \<lparr>recv_OK = False, recv_Data = [], recv_Error = ''not found or expired''\<rparr>)"
    by (simp add: handleReceive_expired)
next
  from named have "fmlookup (blobs (snd (handleReceive s now cid))) cid = None"
    by (rule handleReceive_removes)
  with named show "fst (handleReceive (snd (handleReceive s now cid)) now' cid) =
      (StatusNotFound, \<lparr>recv_OK = False, recv_Data = [], recv_Error = ''not found or expired''\<rparr>)"
    by (simp add: handleReceive_absent)
qed

theorem handleReceive_missing_uniform_witness:
  "fst (handleReceive NewStore 5 ''abc123'') =
     (StatusNotFound, \<lparr>recv_OK = False, recv_Data = [], recv_Error = ''not found or expired''\<rparr>)
   \<and> fst (handleReceive (snd (Put NewStore 0 ''abc123'' (bytes_of_string ''data'') 1000000))
        10000000 ''abc123'') =
     (StatusNotFound, \<lparr>recv_OK = False, recv_Data = [], recv_Error = ''not found or expired''\<rparr>)
   \<and> fst (handleReceive (snd (handleReceive
        (snd (Put NewStore 0 ''abc123'' (bytes_of_string ''data'') 3600000000000)) 5 ''abc123''))
        6 ''abc123'') =
     (StatusNotFound, \<lparr>recv_OK = False, recv_Data = [], recv_Error = ''not found or expired''\<rparr>)"
proof -
  let ?nf = "(StatusNotFound,
     \<lparr>recv_OK = False, recv_Data = [], recv_Error = ''not found or expired''\<rparr>)"
  let ?short = "snd (Put NewStore 0 ''abc123'' (bytes_of_string ''data'') 1000000)"
  let ?b = "\<lparr>Data = bytes_of_string ''data'', CreatedAt = 0, TTL = 1000000\<rparr>"
  let ?long = "snd (Put NewStore 0 ''abc123'' (bytes_of_string ''data'') 3600000000000)"
  have named: "''abc123'' \<noteq> []"
    by simp
  have never: "fmlookup (blobs NewStore) ''abc123'' = None"
    by (simp add: NewStore_def)
  have expired: "fmlookup (blobs ?short) ''abc123'' = Some ?b
      \<and> Since 10000000 (CreatedAt ?b) > TTL ?b"
    by (simp add: Put_def NewStore_def Since_def Sub_def wrap64_def maxDuration_def
        minDuration_def)
  from handleReceive_missing_uniform [OF named, of NewStore 5 5] never
  have first: "fst (handleReceive NewStore 5 ''abc123'') = ?nf"
    by blast
  from handleReceive_missing_uniform [OF named, of ?short 10000000 5] expired
  have second: "fst (handleReceive ?short 10000000 ''abc123'') = ?nf"
    by blast
  from handleReceive_missing_uniform [OF named, of ?long 5 6]
  have third: "fst (handleReceive (snd (handleReceive ?long 5 ''abc123'')) 6 ''abc123'') = ?nf"
    by blast
  from first second third show ?thesis
    by blast
qed

section \<open>The relay: a duplicate code ID as the sender sees it\<close>

lemma Send_Responded:
  "Send c (Responded status r) =
     (if send_OK r then Inr r else Inl (Err (''server error: '' @ send_Error r)))"
  by (simp add: Send_def)

lemma handleSend_not_ok_errors:
  "\<not> send_OK (snd (fst (handleSend config s tp tr decoded))) \<Longrightarrow>
   (fst (fst (handleSend config s tp tr decoded)) = StatusConflict
      \<and> send_Error (snd (fst (handleSend config s tp tr decoded)))
          = ''code ID already exists, try again'')
   \<or> (fst (fst (handleSend config s tp tr decoded)) = StatusBadRequest
      \<and> send_Error (snd (fst (handleSend config s tp tr decoded)))
          \<in> {''invalid request body'', ''code_id and data are required''})"
  by (cases decoded)
    (auto simp: handleSend_def Put_def Let_def split: option.splits if_splits)

lemma handleSend_ok_created:
  "send_OK (snd (fst (handleSend config s tp tr decoded))) \<Longrightarrow>
   fst (fst (handleSend config s tp tr decoded)) = StatusCreated"
  by (cases decoded)
    (auto simp: handleSend_def Put_def Let_def split: option.splits if_splits)

text \<open>
  Claim C9. The relay answers a send request with status 409 exactly when the request is
  well formed and its code ID is already stored, that is, when \<open>Put\<close> rejects it; every
  other failure of the handler has status 400. The client's \<open>Send\<close>, given the relay's
  response, returns the error "server error: code ID already exists, try again" exactly in
  that case, and none of its other failures (marshalling, connection, reading, parsing)
  gives that error: the duplicate is told apart from every other failure on the wire by
  the status and at the client by the error.
\<close>

theorem duplicate_surfaced_distinctly:
  "(fst (fst (handleSend config s tp tr decoded)) = StatusConflict \<longleftrightarrow>
      (\<exists>req. decoded = Inr req \<and> req_CodeID req \<noteq> [] \<and> req_Data req \<noteq> []
             \<and> fmlookup (blobs s) (req_CodeID req) \<noteq> None))
   \<and> (fst (fst (handleSend config s tp tr decoded)) \<in> {StatusCreated, StatusBadRequest, StatusConflict})
   \<and> (Send c (Responded (fst (fst (handleSend config s tp tr decoded)))
                         (snd (fst (handleSend config s tp tr decoded))))
         = Inl (Err ''server error: code ID already exists, try again'')
       \<longleftrightarrow> fst (fst (handleSend config s tp tr decoded)) = StatusConflict)
   \<and> Send c (MarshalFailed e) \<noteq> Inl (Err ''server error: code ID already exists, try again'')
   \<and> Send c (PostFailed e) \<noteq> Inl (Err ''server error: code ID already exists, try again'')
   \<and> Send c (ReadFailed e) \<noteq> Inl (Err ''server error: code ID already exists, try again'')
   \<and> Send c (UnmarshalFailed e) \<noteq> Inl (Err ''server error: code ID already exists, try again'')"
proof -
  let ?r = "handleSend config s tp tr decoded"
  have wire: "fst (fst ?r) = StatusConflict \<longleftrightarrow>
      (\<exists>req. decoded = Inr req \<and> req_CodeID req \<noteq> [] \<and> req_Data req \<noteq> []
             \<and> fmlookup (blobs s) (req_CodeID req) \<noteq> None)"
    by (rule handleSend_status_conflict)
  have statuses: "fst (fst ?r) \<in> {StatusCreated, StatusBadRequest, StatusConflict}"
    using handleSend_not_ok_errors [of config s tp tr decoded]
      handleSend_ok_created [of config s tp tr decoded] by blast
  have client: "Send c (Responded (fst (fst ?r)) (snd (fst ?r)))
         = Inl (Err ''server error: code ID already exists, try again'')
       \<longleftrightarrow> fst (fst ?r) = StatusConflict"
  proof (cases "send_OK (snd (fst ?r))")
    case True
    then have "fst (fst ?r) = StatusCreated"
      by (rule handleSend_ok_created)
    with True show ?thesis
      by (simp add: Send_Responded StatusCreated_def StatusConflict_def)
  next
    case False
    from handleSend_not_ok_errors [OF False] False show ?thesis
      by (auto simp: Send_Responded StatusBadRequest_def StatusConflict_def)
  qed
  have others: "Send c (MarshalFailed e) \<noteq> Inl (Err ''server error: code ID already exists, try again'')"
    "Send c (PostFailed e) \<noteq> Inl (Err ''server error: code ID already exists, try again'')"
    "Send c (ReadFailed e) \<noteq> Inl (Err ''server error: code ID already exists, try again'')"
    "Send c (UnmarshalFailed e) \<noteq> Inl (Err ''server error: code ID already exists, try again'')"
    by (simp_all add: Send_def)
  from wire statuses client others show ?thesis
    by blast
qed

theorem duplicate_surfaced_distinctly_witness:
  "fst (fst (handleSend DefaultConfig
        (snd (Put NewStore 0 ''abc123'' (bytes_of_string ''first'') 3600000000000)) 1 2
        (Inr \<lparr>req_CodeID = ''abc123'', req_Data = ''second'', req_TTL = 60\<rparr>))) = StatusConflict
   \<and> Send \<lparr>baseURL = ''https://git-share.artelin.dev''\<rparr>
        (Responded
          (fst (fst (handleSend DefaultConfig
             (snd (Put NewStore 0 ''abc123'' (bytes_of_string ''first'') 3600000000000)) 1 2
             (Inr \<lparr>req_CodeID = ''abc123'', req_Data = ''second'', req_TTL = 60\<rparr>))))
          (snd (fst (handleSend DefaultConfig
             (snd (Put NewStore 0 ''abc123'' (bytes_of_string ''first'') 3600000000000)) 1 2
             (Inr \<lparr>req_CodeID = ''abc123'', req_Data = ''second'', req_TTL = 60\<rparr>)))))
     = Inl (Err ''server error: code ID already exists, try again'')"
proof -
  let ?s = "snd (Put NewStore 0 ''abc123'' (bytes_of_string ''first'') 3600000000000)"
  let ?req = "\<lparr>req_CodeID = ''abc123'', req_Data = ''second'', req_TTL = 60\<rparr>"
  have duplicate: "\<exists>req. (Inr ?req :: go_error + SendRequest) = Inr req \<and> req_CodeID req \<noteq> []
      \<and> req_Data req \<noteq> [] \<and> fmlookup (blobs ?s) (req_CodeID req) \<noteq> None"
    by (rule exI [of _ ?req]) (simp add: Put_def NewStore_def)
  from duplicate_surfaced_distinctly
    [of DefaultConfig ?s 1 2 "Inr ?req" "\<lparr>baseURL = ''https://git-share.artelin.dev''\<rparr>" "[]"]
    duplicate
  show ?thesis
    by blast
qed

section \<open>The cipher\<close>

lemma NewX_ok: "length key = KeySize L \<Longrightarrow> NewX L key = Inr key"
  by (simp add: NewX_def)

lemma Encrypt_ok:
  "length key = KeySize L \<Longrightarrow>
   Encrypt L (Inr nonce) plaintext key = Inr (nonce @ Seal L key nonce plaintext)"
  by (simp add: Encrypt_def NewX_ok)

lemma Decrypt_short:
  "length key = KeySize L \<Longrightarrow> length c < NonceSizeX L \<Longrightarrow>
   Decrypt L c key = Inl (Err ''ciphertext too short'')"
  by (simp add: Decrypt_def NewX_ok)

lemma Decrypt_long:
  "length key = KeySize L \<Longrightarrow> NonceSizeX L \<le> length c \<Longrightarrow>
   Decrypt L c key =
     (case Open L key (take (NonceSizeX L) c) (drop (NonceSizeX L) c) of
        Inl err \<Rightarrow> Inl (Err (''decryption failed (wrong passphrase?): '' @ err))
      | Inr plaintext \<Rightarrow> Inr plaintext)"
  by (simp add: Decrypt_def NewX_ok Let_def)

lemma example_lib_opens_sealed:
  "\<forall>k n p. length k = KeySize example_lib \<and> length n = NonceSizeX example_lib \<longrightarrow>
     Open example_lib k n (Seal example_lib k n p) = Inr p"
  by (simp add: example_lib_def)

text \<open>
  Claim C1. Let the AEAD open what it has sealed under the same key and nonce, and let
  reading the AEAD's key size from the HKDF reader for the passphrase \<open>S\<close> return that many
  bytes. Then \<open>DeriveKey\<close> returns a key for \<open>S\<close>, and for every plaintext \<open>P\<close> and every nonce
  of the AEAD's nonce size that \<open>Encrypt\<close> draws, \<open>Encrypt\<close> under the derived key returns a
  ciphertext and \<open>Decrypt\<close> of that ciphertext under the derived key returns \<open>P\<close>.
\<close>

theorem decrypt_encrypt_roundtrip:
  assumes aead: "\<forall>k n p. length k = KeySize L \<and> length n = NonceSizeX L \<longrightarrow>
                   Open L k n (Seal L k n p) = Inr p"
    and hkdf: "\<exists>k. hkdf_ReadFull L (map (\<lambda>c. of_char c) S) (map (\<lambda>c. of_char c) hkdfSalt)
                     (map (\<lambda>c. of_char c) hkdfInfo) (KeySize L) = Inr k
                 \<and> length k = KeySize L"
    and nonce_size: "length nonce = NonceSizeX L"
  shows "\<exists>key c. DeriveKey L S = Inr key \<and> Encrypt L (Inr nonce) P key = Inr c
             \<and> Decrypt L c key = Inr P"
proof -
  from hkdf obtain key where derived: "DeriveKey L S = Inr key"
    and key_size: "length key = KeySize L"
    by (auto simp: DeriveKey_def)
  let ?c = "nonce @ Seal L key nonce P"
  have enc: "Encrypt L (Inr nonce) P key = Inr ?c"
    using key_size by (rule Encrypt_ok)
  have long: "NonceSizeX L \<le> length ?c"
    using nonce_size by simp
  have split: "take (NonceSizeX L) ?c = nonce" "drop (NonceSizeX L) ?c = Seal L key nonce P"
    using nonce_size by simp_all
  have opened: "Open L key nonce (Seal L key nonce P) = Inr P"
    using aead key_size nonce_size by blast
  have "Decrypt L ?c key =
      (case Open L key (take (NonceSizeX L) ?c) (drop (NonceSizeX L) ?c) of
         Inl err \<Rightarrow> Inl (Err (''decryption failed (wrong passphrase?): '' @ err))
       | Inr plaintext \<Rightarrow> Inr plaintext)"
    using key_size long by (rule Decrypt_long)
  also have "\<dots> = Inr P"
    by (simp only: split opened sum.case)
  finally have dec: "Decrypt L ?c key = Inr P" .
  from derived enc dec show ?thesis
    by blast
qed

theorem decrypt_encrypt_roundtrip_witness:
  "\<exists>key c. DeriveKey example_lib ''alpha-bravo-charlie-delta'' = Inr key
      \<and> Encrypt example_lib (Inr (replicate 24 7)) (map (\<lambda>c. of_char c) ''diff content'') key
          = Inr c
      \<and> Decrypt example_lib c key = Inr (map (\<lambda>c. of_char c) ''diff content'')"
proof -
  have hkdf: "\<exists>k. hkdf_ReadFull example_lib (map (\<lambda>c. of_char c) ''alpha-bravo-charlie-delta'')
        (map (\<lambda>c. of_char c) hkdfSalt) (map (\<lambda>c. of_char c) hkdfInfo) (KeySize example_lib) = Inr k
      \<and> length k = KeySize example_lib"
    by (simp add: example_lib_def)
  have nonce_size: "length (replicate 24 (7 :: byte)) = NonceSizeX example_lib"
    by (simp add: example_lib_def)
  show ?thesis
    by (rule decrypt_encrypt_roundtrip [OF example_lib_opens_sealed hkdf nonce_size])
qed

text \<open>
  Claim C8, as stated, fails: \<open>Decrypt\<close> has two failures for these causes, not one. A
  ciphertext shorter than the nonce is refused before the AEAD is called, with the error
  "ciphertext too short"; a ciphertext that fails authentication gives the error
  "decryption failed (wrong passphrase?)" followed by the AEAD's error. Truncating a
  ciphertext to nothing and truncating it to its 24-byte nonce give the one and the other.
\<close>

theorem decrypt_two_failures_counterexample:
  "Decrypt example_lib [] (replicate 32 0) = Inl (Err ''ciphertext too short'')
   \<and> Decrypt example_lib (replicate 24 7) (replicate 32 0)
       = Inl (Err ''decryption failed (wrong passphrase?): chacha20poly1305: message authentication failed'')"
  by (simp add: Decrypt_def NewX_def example_lib_def Let_def)

text \<open>
  Claim C8, amended. The AEAD of golang.org/x/crypto reports every refusal to open with its
  one authentication error, here \<open>errOpen\<close>. Given that, for all keys of the AEAD's key
  size: a ciphertext shorter than the nonce size fails with the error "ciphertext too
  short"; every ciphertext of at least the nonce size that the AEAD refuses to open fails
  with the one error "decryption failed (wrong passphrase?): " followed by \<open>errOpen\<close>, so
  any two such failures, under whatever keys and for whatever cause (wrong key, corrupted
  data, or truncation that leaves the nonce), are the same outcome; that error differs from
  "ciphertext too short"; and no failure returns plaintext.
\<close>

theorem decrypt_failures:
  assumes key_size: "length key = KeySize L" and key_size': "length key' = KeySize L"
    and one_error: "\<forall>k n sealed e. Open L k n sealed = Inl e \<longrightarrow> e = errOpen"
  shows "(length c < NonceSizeX L \<longrightarrow> Decrypt L c key = Inl (Err ''ciphertext too short''))
       \<and> (NonceSizeX L \<le> length c
            \<and> (\<exists>e. Open L key (take (NonceSizeX L) c) (drop (NonceSizeX L) c) = Inl e) \<longrightarrow>
            Decrypt L c key = Inl (Err (''decryption failed (wrong passphrase?): '' @ errOpen)))
       \<and> (NonceSizeX L \<le> length c
            \<and> (\<exists>e. Open L key (take (NonceSizeX L) c) (drop (NonceSizeX L) c) = Inl e)
            \<and> NonceSizeX L \<le> length c'
            \<and> (\<exists>e. Open L key' (take (NonceSizeX L) c') (drop (NonceSizeX L) c') = Inl e) \<longrightarrow>
            Decrypt L c key = Decrypt L c' key')
       \<and> Err ''ciphertext too short'' \<noteq> Err (''decryption failed (wrong passphrase?): '' @ errOpen)
       \<and> (\<forall>p. Decrypt L c key = Inr p \<longrightarrow>
              NonceSizeX L \<le> length c
              \<and> Open L key (take (NonceSizeX L) c) (drop (NonceSizeX L) c) = Inr p)"
proof -
  have refused: "Decrypt L x k = Inl (Err (''decryption failed (wrong passphrase?): '' @ errOpen))"
    if size: "length k = KeySize L" and long: "NonceSizeX L \<le> length x"
      and fails: "\<exists>e. Open L k (take (NonceSizeX L) x) (drop (NonceSizeX L) x) = Inl e"
    for x k
  proof -
    from fails obtain e where e: "Open L k (take (NonceSizeX L) x) (drop (NonceSizeX L) x) = Inl e"
      by blast
    with one_error have "e = errOpen"
      by blast
    with e show ?thesis
      by (simp add: Decrypt_long [OF size long])
  qed
  have short: "length c < NonceSizeX L \<longrightarrow> Decrypt L c key = Inl (Err ''ciphertext too short'')"
    using key_size by (simp add: Decrypt_short)
  have one: "NonceSizeX L \<le> length c
      \<and> (\<exists>e. Open L key (take (NonceSizeX L) c) (drop (NonceSizeX L) c) = Inl e) \<longrightarrow>
      Decrypt L c key = Inl (Err (''decryption failed (wrong passphrase?): '' @ errOpen))"
    using refused [OF key_size] by blast
  have same: "NonceSizeX L \<le> length c
      \<and> (\<exists>e. Open L key (take (NonceSizeX L) c) (drop (NonceSizeX L) c) = Inl e)
      \<and> NonceSizeX L \<le> length c'
      \<and> (\<exists>e. Open L key' (take (NonceSizeX L) c') (drop (NonceSizeX L) c') = Inl e) \<longrightarrow>
      Decrypt L c key = Decrypt L c' key'"
    using refused [OF key_size, of c] refused [OF key_size', of c'] by simp
  have differ: "Err ''ciphertext too short''
      \<noteq> Err (''decryption failed (wrong passphrase?): '' @ errOpen)"
    by simp
  have plain: "\<forall>p. Decrypt L c key = Inr p \<longrightarrow>
      NonceSizeX L \<le> length c
      \<and> Open L key (take (NonceSizeX L) c) (drop (NonceSizeX L) c) = Inr p"
  proof (intro allI impI)
    fix p
    assume ok: "Decrypt L c key = Inr p"
    then have long: "NonceSizeX L \<le> length c"
      using Decrypt_short [OF key_size, of c] by (cases "length c < NonceSizeX L") simp_all
    with ok have "Open L key (take (NonceSizeX L) c) (drop (NonceSizeX L) c) = Inr p"
      by (simp add: Decrypt_long [OF key_size] split: sum.splits)
    with long show "NonceSizeX L \<le> length c
        \<and> Open L key (take (NonceSizeX L) c) (drop (NonceSizeX L) c) = Inr p"
      by simp
  qed
  from short one same differ plain show ?thesis
    by blast
qed

theorem decrypt_failures_witness:
  "Decrypt example_lib (replicate 5 1) (replicate 32 0) = Inl (Err ''ciphertext too short'')
   \<and> Decrypt example_lib (replicate 24 7 @ replicate 3 9) (replicate 32 0)
       = Inl (Err ''decryption failed (wrong passphrase?): chacha20poly1305: message authentication failed'')
   \<and> Decrypt example_lib (replicate 24 7 @ replicate 3 9) (replicate 32 0)
       = Decrypt example_lib (replicate 24 7 @ replicate 3 9 @ replicate 16 0) (replicate 32 1)"
proof -
  let ?key = "replicate 32 (0 :: byte)"
  let ?other = "replicate 32 (1 :: byte)"
  let ?short = "replicate 5 (1 :: byte)"
  let ?cut = "replicate 24 (7 :: byte) @ replicate 3 9"
  let ?sealed = "replicate 24 (7 :: byte) @ replicate 3 9 @ replicate 16 0"
  let ?errOpen = "''chacha20poly1305: message authentication failed''"
  have key_size: "length ?key = KeySize example_lib"
    by (simp add: example_lib_def)
  have other_size: "length ?other = KeySize example_lib"
    by (simp add: example_lib_def)
  have one_error: "\<forall>k n sealed e. Open example_lib k n sealed = Inl e \<longrightarrow> e = ?errOpen"
    by (simp add: example_lib_def)
  have short: "length ?short < NonceSizeX example_lib"
    by (simp add: example_lib_def)
  have cut: "NonceSizeX example_lib \<le> length ?cut
      \<and> (\<exists>e. Open example_lib ?key (take (NonceSizeX example_lib) ?cut)
            (drop (NonceSizeX example_lib) ?cut) = Inl e)"
    by (simp add: example_lib_def)
  have wrong_key: "NonceSizeX example_lib \<le> length ?sealed
      \<and> (\<exists>e. Open example_lib ?other (take (NonceSizeX example_lib) ?sealed)
            (drop (NonceSizeX example_lib) ?sealed) = Inl e)"
    by (simp add: example_lib_def)
  from decrypt_failures [OF key_size other_size one_error, of ?short ?cut] short
  have first: "Decrypt example_lib ?short ?key = Inl (Err ''ciphertext too short'')"
    by blast
  from decrypt_failures [OF key_size other_size one_error, of ?cut ?sealed] cut
  have second: "Decrypt example_lib ?cut ?key
      = Inl (Err (''decryption failed (wrong passphrase?): '' @ ?errOpen))"
    by blast
  from decrypt_failures [OF key_size other_size one_error, of ?cut ?sealed] cut wrong_key
  have third: "Decrypt example_lib ?cut ?key = Decrypt example_lib ?sealed ?other"
    by blast
  from first second third show ?thesis
    by simp
qed

section \<open>The code scheme\<close>

lemma Index_absent: "c \<notin> set a \<Longrightarrow> Index a [c] = None"
  by (induction a) auto

lemma Index_first: "c \<notin> set a \<Longrightarrow> Index (a @ c # rest) [c] = Some (length a)"
  by (induction a) auto

lemma genSplit_loop_cut:
  "c \<notin> set a \<Longrightarrow> genSplit_loop (Suc k) (a @ c # rest) [c] = a # genSplit_loop k rest [c]"
  by (simp add: Index_first)

lemma genSplit_loop_last: "c \<notin> set a \<Longrightarrow> genSplit_loop k a [c] = [a]"
  by (cases k) (simp_all add: Index_absent)

lemma generateCodeID_loop_chars:
  "generateCodeID_loop r pos n = Inr b \<Longrightarrow> length b = n \<and> set b \<subseteq> set base62Chars"
proof (induction n arbitrary: pos b)
  case 0
  then show ?case by simp
next
  case (Suc n)
  from Suc.prems obtain idx b' where idx: "idx < length base62Chars"
    and rest: "generateCodeID_loop r (Suc pos) n = Inr b'"
    and b: "b = base62Chars ! idx # b'"
    by (auto split: sum.splits if_splits)
  from Suc.IH [OF rest] idx b show ?case
    by auto
qed

lemma Pick_loop_words:
  "Pick_loop r pos n = Inr ws \<Longrightarrow> length ws = n \<and> set ws \<subseteq> set Words"
proof (induction n arbitrary: pos ws)
  case 0
  then show ?case by simp
next
  case (Suc n)
  from Suc.prems obtain idx ws' where idx: "idx < length Words"
    and rest: "Pick_loop r (Suc pos) n = Inr ws'"
    and ws: "ws = Words ! idx # ws'"
    by (auto split: sum.splits if_splits)
  from Suc.IH [OF rest] idx ws show ?case
    by auto
qed

lemma base62Chars_no_sep: "CHR ''-'' \<notin> set base62Chars"
  by (simp add: base62Chars_def)

lemma Words_no_sep: "\<forall>w \<in> set Words. CHR ''-'' \<notin> set w"
  by (simp add: Words_def)

lemma four_elements:
  assumes "length ws = 4"
  obtains w1 w2 w3 w4 where "ws = [w1, w2, w3, w4]"
proof -
  from assms obtain w1 r1 where "ws = w1 # r1" "length r1 = 3"
    by (cases ws) auto
  moreover then obtain w2 r2 where "r1 = w2 # r2" "length r2 = 2"
    by (cases r1) auto
  moreover then obtain w3 r3 where "r2 = w3 # r3" "length r3 = 1"
    by (cases r2) auto
  moreover then obtain w4 where "r3 = [w4]"
    by (cases r3) auto
  ultimately show ?thesis
    using that by blast
qed

text \<open>
  Claim C3. For every entropy source on which \<open>GenerateCode\<close> succeeds, returning a code, a
  code ID and a passphrase, \<open>ParseCode\<close> of that code succeeds and returns exactly that
  code ID and that passphrase.
\<close>

theorem parse_generated_code:
  assumes generated: "GenerateCode r = Inr (code, codeID, passphrase)"
  shows "ParseCode code = Inr (codeID, passphrase)"
proof -
  from generated have gen_id: "generateCodeID r 0 = Inr codeID"
    and picked: "Pick r CodeIDLength PassphraseWords PassphraseSep = Inr passphrase"
    and code: "code = codeID @ CodeSep @ passphrase"
    by (auto simp: GenerateCode_def split: sum.splits)
  from gen_id have id_chars: "length codeID = 10" "set codeID \<subseteq> set base62Chars"
    using generateCodeID_loop_chars [of r 0 CodeIDLength codeID]
    by (simp_all add: generateCodeID_def CodeIDLength_def)
  then have id_no_sep: "CHR ''-'' \<notin> set codeID"
    using base62Chars_no_sep by blast
  from id_chars have id_nonempty: "codeID \<noteq> []"
    by auto
  from picked obtain ws where loop: "Pick_loop r CodeIDLength PassphraseWords = Inr ws"
    and joined: "passphrase = Join ws PassphraseSep"
    by (auto simp: Pick_def split: sum.splits)
  from Pick_loop_words [OF loop] have four: "length ws = 4" and known: "set ws \<subseteq> set Words"
    by (simp_all add: PassphraseWords_def)
  from four obtain w1 w2 w3 w4 where ws: "ws = [w1, w2, w3, w4]"
    by (rule four_elements)
  from known ws Words_no_sep
  have no_sep: "CHR ''-'' \<notin> set w1" "CHR ''-'' \<notin> set w2" "CHR ''-'' \<notin> set w3"
    "CHR ''-'' \<notin> set w4"
    by auto
  have pass: "passphrase = w1 @ CHR ''-'' # w2 @ CHR ''-'' # w3 @ CHR ''-'' # w4"
    by (simp add: joined ws PassphraseSep_def)
  have pass_nonempty: "passphrase \<noteq> []"
    by (simp add: pass)
  have parts: "SplitN code CodeSep 2 = [codeID, passphrase]"
  proof -
    have "min 2 (length code + 1) - 1 = Suc 0"
      by (simp add: code CodeSep_def)
    then have "SplitN code CodeSep 2 = genSplit_loop (Suc 0) (codeID @ CHR ''-'' # passphrase) ''-''"
      by (simp add: SplitN_def code CodeSep_def)
    also have "\<dots> = codeID # genSplit_loop 0 passphrase ''-''"
      using id_no_sep by (rule genSplit_loop_cut)
    finally show ?thesis
      by simp
  qed
  have words: "Split passphrase PassphraseSep = [w1, w2, w3, w4]"
  proof -
    let ?t3 = "w4"
    let ?t2 = "w3 @ CHR ''-'' # ?t3"
    let ?t1 = "w2 @ CHR ''-'' # ?t2"
    obtain k where rounds: "length passphrase = Suc (Suc (Suc k))"
      by (cases "length passphrase") (auto simp: pass intro: that)
    have "Split passphrase PassphraseSep = genSplit_loop (Suc (Suc (Suc k))) passphrase ''-''"
      by (simp only: Split_def PassphraseSep_def rounds)
    also have "\<dots> = genSplit_loop (Suc (Suc (Suc k))) (w1 @ CHR ''-'' # ?t1) ''-''"
      by (simp only: pass)
    also have "\<dots> = w1 # genSplit_loop (Suc (Suc k)) (w2 @ CHR ''-'' # ?t2) ''-''"
      using no_sep(1) by (rule genSplit_loop_cut)
    also have "\<dots> = w1 # w2 # genSplit_loop (Suc k) (w3 @ CHR ''-'' # ?t3) ''-''"
      using no_sep(2) by (simp add: genSplit_loop_cut del: genSplit_loop.simps)
    also have "\<dots> = w1 # w2 # w3 # genSplit_loop k w4 ''-''"
      using no_sep(3) by (simp add: genSplit_loop_cut del: genSplit_loop.simps)
    also have "\<dots> = [w1, w2, w3, w4]"
      using no_sep(4) by (simp add: genSplit_loop_last del: genSplit_loop.simps)
    finally show ?thesis .
  qed
  show ?thesis
    using id_nonempty pass_nonempty
    by (simp add: ParseCode_def parts words PassphraseWords_def Let_def)
qed

theorem parse_generated_code_witness:
  "GenerateCode (\<lambda>k. Inr k)
     = Inr (''0123456789-axis-back-bald-band'', ''0123456789'', ''axis-back-bald-band'')
   \<and> ParseCode ''0123456789-axis-back-bald-band'' = Inr (''0123456789'', ''axis-back-bald-band'')"
proof -
  have generated: "GenerateCode (\<lambda>k. Inr k)
      = Inr (''0123456789-axis-back-bald-band'', ''0123456789'', ''axis-back-bald-band'')"
    by code_simp
  from generated parse_generated_code [OF generated] show ?thesis
    by (rule conjI)
qed

end
